theory Spec2Isabelle
  imports Main
begin

section \<open>Data model\<close>

text \<open>
  A \<open>Date\<close> is a number of milliseconds on the accounting clock. Two dates have the same
  \<open>toDateString()\<close> exactly when they fall on the same calendar day, and \<open>getHours()\<close> is
  the hour of that day.
\<close>

type_synonym date = int

definition toDateString :: "date \<Rightarrow> int" where
  "toDateString t = t div 86400000"

definition getHours :: "date \<Rightarrow> int" where
  "getHours t = (t div 3600000) mod 24"

text \<open>The \<open>status\<close> enum of a campaign e-mail (campaign.schema.ts).\<close>

datatype email_status =
  Pending | Sent | Delivered | Opened | Clicked | Replied | Bounced | Failed

text \<open>The \<open>status\<close> enum of a campaign.\<close>

datatype campaign_status =
  Draft | Scheduled | Running | Paused | Completed | CampaignFailed

text \<open>
  The messages of the errors raised on the sending path. The rate-limit messages carry the
  limit and the configuration's name, as the template literals of the source do.
\<close>

datatype send_error =
  ConfigNotFoundOrInactive
  | DailyLimitExceeded int string
  | HourlyLimitExceeded int string
  | TransportError string

record campaign_email =
  email :: string
  variables :: "(string \<times> string) list"
  status :: email_status
  messageId :: "string option"
  error :: "send_error option"
  sentAt :: "date option"
  openedAt :: "date option"
  clickedAt :: "date option"
  openCount :: int
  clickCount :: int

record campaign =
  cid :: string
  userId :: string
  smtpConfigId :: string
  templateId :: "string option"
  emails :: "campaign_email list"
  cstatus :: campaign_status
  startedAt :: "date option"
  completedAt :: "date option"
  totalEmails :: int
  emailsSent :: int
  emailsDelivered :: int
  emailsOpened :: int
  emailsClicked :: int
  emailsReplied :: int
  emailsFailed :: int
  delayBetweenEmails :: "int option"
  maxEmailsPerHour :: "int option"
  lastEmailSentAt :: "date option"

section \<open>The document store\<close>

text \<open>
  A collection is the list of its documents. \<open>updateOne\<close> changes the first document that
  matches the filter; with the filter \<open>{_id, 'emails.email': address}\<close> the positional
  operator \<open>emails.$\<close> stands for the first element of \<open>emails\<close> with that address.
\<close>

fun updateFirst :: "('a \<Rightarrow> bool) \<Rightarrow> ('a \<Rightarrow> 'a) \<Rightarrow> 'a list \<Rightarrow> 'a list" where
  "updateFirst P f [] = []"
| "updateFirst P f (x # xs) = (if P x then f x # xs else x # updateFirst P f xs)"

definition hasEmail :: "string \<Rightarrow> campaign \<Rightarrow> bool" where
  "hasEmail address c = list_ex (\<lambda>e. email e = address) (emails c)"

definition updateOneEmail ::
  "string \<Rightarrow> string \<Rightarrow> (campaign \<Rightarrow> campaign) \<Rightarrow> (campaign_email \<Rightarrow> campaign_email)
    \<Rightarrow> campaign list \<Rightarrow> campaign list" where
  "updateOneEmail campaignId address onDocument onElement coll =
     updateFirst (\<lambda>c. cid c = campaignId \<and> hasEmail address c)
       (\<lambda>c. onDocument (c\<lparr>emails := updateFirst (\<lambda>e. email e = address) onElement (emails c)\<rparr>))
       coll"

definition findById :: "('a \<Rightarrow> string) \<Rightarrow> string \<Rightarrow> 'a list \<Rightarrow> 'a option" where
  "findById idOf i coll = find (\<lambda>d. idOf d = i) coll"

definition updateById :: "('a \<Rightarrow> string) \<Rightarrow> string \<Rightarrow> ('a \<Rightarrow> 'a) \<Rightarrow> 'a list \<Rightarrow> 'a list" where
  "updateById idOf i f coll = updateFirst (\<lambda>d. idOf d = i) f coll"

section \<open>Tracking tokens (TrackingService.parseTrackingId)\<close>

text \<open>
  \<open>String.prototype.split\<close> with a one-character separator: a string with \<open>n\<close>
  separators gives \<open>n + 1\<close> parts, and the empty string gives one empty part.
\<close>

fun js_split :: "char \<Rightarrow> string \<Rightarrow> string list" where
  "js_split d [] = [[]]"
| "js_split d (c # cs) =
     (if c = d then [] # js_split d cs
      else (case js_split d cs of
              [] \<Rightarrow> [[c]]
            | p # ps \<Rightarrow> (c # p) # ps))"

datatype tracking_error = InvalidIdFormat

definition parseTrackingId :: "string \<Rightarrow> tracking_error + (string \<times> string)" where
  "parseTrackingId trackingId =
     (let parts = js_split CHR ''_'' trackingId
      in if length parts < 3 then Inl InvalidIdFormat
         else Inr (parts ! 0, parts ! 1))"

text \<open>
  The token built in \<open>processCampaignEmails\<close>:
  \<^verbatim>\<open>`${getIdString(campaign._id)}_${email.email}_${Date.now()}`\<close>.
  The decimal rendering of \<open>Date.now()\<close> is a string of digits.
\<close>

fun digitsOf :: "nat \<Rightarrow> string" where
  "digitsOf n =
     (if n < 10 then [''0123456789'' ! n]
      else digitsOf (n div 10) @ [''0123456789'' ! (n mod 10)])"

declare digitsOf.simps [simp del]

definition trackingIdOf :: "string \<Rightarrow> string \<Rightarrow> nat \<Rightarrow> string" where
  "trackingIdOf campaignId address epochMillis =
     campaignId @ ''_'' @ address @ ''_'' @ digitsOf epochMillis"

section \<open>Template personalization (CampaignService.personalizeTemplate)\<close>

text \<open>
  \<open>result.replace(regex, value)\<close> with a string as second argument expands the
  replacement patterns of the language in it: \<open>$$\<close> is a dollar sign, \<open>$&\<close> the matched
  text, \<open>$`\<close> the text before the match and \<open>$'\<close> the text after it. The expression has no
  capture group, so \<open>$1\<close>, \<open>$<name>\<close> and a lone \<open>$\<close> stay as they are.
\<close>

fun getSubstitution :: "string \<Rightarrow> string \<Rightarrow> string \<Rightarrow> string \<Rightarrow> string" where
  "getSubstitution matched passed after [] = []"
| "getSubstitution matched passed after [c] = [c]"
| "getSubstitution matched passed after (c # d # r) =
     (if c = CHR ''$'' \<and> d = CHR ''$'' then CHR ''$'' # getSubstitution matched passed after r
      else if c = CHR ''$'' \<and> d = CHR ''&'' then matched @ getSubstitution matched passed after r
      else if c = CHR ''$'' \<and> d = CHR 0x60 then passed @ getSubstitution matched passed after r
      else if c = CHR ''$'' \<and> d = CHR 0x27 then after @ getSubstitution matched passed after r
      else c # getSubstitution matched passed after (d # r))"

text \<open>
  \<open>escapeRegExp\<close> escapes every character that is special in a regular expression, so the
  expression built from the placeholder matches the placeholder literally; with flag \<open>g\<close>
  the matches are found from left to right and do not overlap. \<open>passed\<close> is the part of
  the string already passed. The placeholder \<open>{{key}}\<close> is never empty.
\<close>

function replaceGlobal :: "string \<Rightarrow> string \<Rightarrow> string \<Rightarrow> string \<Rightarrow> string" where
  "replaceGlobal pat v passed [] = []"
| "replaceGlobal pat v passed (c # s) =
     (if pat \<noteq> [] \<and> take (length pat) (c # s) = pat
      then getSubstitution pat passed (drop (length pat) (c # s)) v
             @ replaceGlobal pat v (passed @ pat) (drop (length pat) (c # s))
      else c # replaceGlobal pat v (passed @ [c]) s)"
  by pat_completeness auto
termination
  by (relation "measure (\<lambda>(pat, v, passed, s). length s)") auto

definition placeholder :: "string \<Rightarrow> string" where
  "placeholder key = ''{{'' @ key @ ''}}''"

text \<open>
  \<open>variables\<close> is the list \<open>Object.entries(variables)\<close>, in its order. The replacements
  are made one key after the other, each on the result of the one before.
\<close>

definition personalizeTemplate :: "string \<Rightarrow> (string \<times> string) list \<Rightarrow> string" where
  "personalizeTemplate template vars =
     foldl (\<lambda>result (key, val). replaceGlobal (placeholder key) val [] result) template vars"

section \<open>Tracking ingest (TrackingService, TrackingController)\<close>

text \<open>
  The update document of \<open>trackOpen\<close> has the two operators \<open>$Inc\<close> and \<open>$set\<close>. \<open>$Inc\<close>
  is not an update operator of the store (the operator is \<open>$inc\<close>). What the database
  driver does with an operator it does not know is outside the repository, so it is a
  parameter: the update is rejected as a whole (the call throws), or the operator is
  ignored and the rest of the update applied.

  The campaign id of a token that parses is taken here to be one that the driver can
  cast to an \<open>ObjectId\<close>. For another id the call throws as well, and ends in the same
  \<open>catch\<close> block as a token that does not parse.
\<close>

datatype unknown_operator = RejectUpdate | IgnoreOperator

datatype log_line =
  LogOpened string string
  | LogOpenFailed
  | LogClicked string string string
  | LogClickFailed

record track_result =
  success :: bool

definition trackOpen ::
  "unknown_operator \<Rightarrow> date \<Rightarrow> string \<Rightarrow> campaign list
    \<Rightarrow> track_result \<times> campaign list \<times> log_line list" where
  "trackOpen h now trackingId coll =
     (case parseTrackingId trackingId of
        Inl e \<Rightarrow> (\<lparr>success = False\<rparr>, coll, [LogOpenFailed])
      | Inr (campaignId, address) \<Rightarrow>
          (case h of
             RejectUpdate \<Rightarrow> (\<lparr>success = False\<rparr>, coll, [LogOpenFailed])
           | IgnoreOperator \<Rightarrow>
               (\<lparr>success = True\<rparr>,
                updateOneEmail campaignId address (\<lambda>c. c)
                  (\<lambda>e. e\<lparr>openedAt := Some now, status := Opened\<rparr>) coll,
                [LogOpened address campaignId])))"







section \<open>Sending (EmailService)\<close>

text \<open>
  The fields of the schema \<open>SMTPConfig\<close> that the sending path reads and writes. The
  counter \<open>emailsFailed\<close> of the configuration is \<open>smtpEmailsFailed\<close> here, and its
  \<open>name\<close> is \<open>smtpName\<close>.
\<close>

record smtp_config =
  sid :: string
  smtpName :: string
  isActive :: bool
  dailyLimit :: int
  hourlyRateLimit :: int
  emailsSentToday :: int
  totalEmailsSent :: int
  smtpEmailsFailed :: int
  lastResetDate :: "date option"

record email_template =
  tid :: string
  subject :: string
  body :: string

record email_options =
  to :: string
  optSubject :: string
  html :: string
  trackingId :: string

record send_email_result =
  sendSuccess :: bool
  sendMessageId :: "string option"
  sendError :: "send_error option"
  sendStatus :: email_status

text \<open>
  The transport is outside the program. Its answer to the \<open>n\<close>-th request made of it is
  one of: the connection cannot be verified (\<open>getTransporter\<close> throws), \<open>sendMail\<close>
  throws, or \<open>sendMail\<close> returns a message id.
\<close>

datatype transport_outcome = VerifyFails string | SendFails string | SendAccepts string

text \<open>
  The state of the process and of the store: the three collections, the map
  \<open>dailyStats\<close> of the e-mail service (keyed by configuration id and hour, with the pair
  of counters \<open>sent\<close> and \<open>failed\<close>), the clock, the number of requests made of the
  transport, the messages handed to \<open>sendMail\<close>, and the callbacks registered with
  \<open>setTimeout\<close> by the campaign service (the time they are due, and the campaign object
  they hold).
\<close>

record world =
  smtpConfigModel :: "smtp_config list"
  campaignModel :: "campaign list"
  emailTemplateModel :: "email_template list"
  dailyStats :: "(string \<times> int) \<Rightarrow> (int \<times> int) option"
  clock :: date
  transportCalls :: nat
  outbox :: "email_options list"
  timers :: "(date \<times> campaign) list"

definition startOfDay :: "date \<Rightarrow> date" where
  "startOfDay t = (t div 86400000) * 86400000"

text \<open>
  \<open>checkAndUpdateRateLimit\<close>: the reset is written to the store with \<open>updateOne\<close>; the
  two comparisons that follow read the object \<open>config\<close> that the caller loaded before.
\<close>

definition checkAndUpdateRateLimit :: "smtp_config \<Rightarrow> world \<Rightarrow> (send_error + unit) \<times> world" where
  "checkAndUpdateRateLimit config w =
     (let now = clock w;
          lastReset = (case lastResetDate config of None \<Rightarrow> startOfDay now | Some d \<Rightarrow> d);
          w1 = (if toDateString lastReset \<noteq> toDateString now
                then w\<lparr>smtpConfigModel :=
                        updateById sid (sid config)
                          (\<lambda>c. c\<lparr>emailsSentToday := 0, lastResetDate := Some now\<rparr>)
                          (smtpConfigModel w)\<rparr>
                else w)
      in if dailyLimit config > 0 \<and> emailsSentToday config \<ge> dailyLimit config
         then (Inl (DailyLimitExceeded (dailyLimit config) (smtpName config)), w1)
         else
           (let hourlyCount = (case dailyStats w1 (sid config, getHours now) of
                                 None \<Rightarrow> 0
                               | Some (sent, failed) \<Rightarrow> sent)
            in if hourlyRateLimit config > 0 \<and> hourlyCount \<ge> hourlyRateLimit config
               then (Inl (HourlyLimitExceeded (hourlyRateLimit config) (smtpName config)), w1)
               else (Inr (), w1)))"

definition updateSMTPStats :: "string \<Rightarrow> bool \<Rightarrow> world \<Rightarrow> world" where
  "updateSMTPStats configId ok w =
     w\<lparr>smtpConfigModel :=
         updateById sid configId
           (\<lambda>c. c\<lparr>emailsSentToday := emailsSentToday c + 1,
                  totalEmailsSent := totalEmailsSent c + 1,
                  smtpEmailsFailed := (if ok then smtpEmailsFailed c else smtpEmailsFailed c + 1)\<rparr>)
           (smtpConfigModel w)\<rparr>"

definition updateDailyStats :: "string \<Rightarrow> bool \<Rightarrow> world \<Rightarrow> world" where
  "updateDailyStats configId ok w =
     (let hourlyKey = (configId, getHours (clock w));
          stats = (case dailyStats w hourlyKey of None \<Rightarrow> (0, 0) | Some st \<Rightarrow> st)
      in w\<lparr>dailyStats := (dailyStats w)
             (hourlyKey \<mapsto> (if ok then (fst stats + 1, snd stats)
                              else (fst stats, snd stats + 1)))\<rparr>)"

text \<open>
  The \<open>catch\<close> block of \<open>sendEmail\<close>: every error thrown in the \<open>try\<close> block ends here.
  The configuration id is taken to be one that the driver can cast to an \<open>ObjectId\<close>, as
  the id of a stored configuration is.
\<close>

definition sendEmail_catch :: "string \<Rightarrow> send_error \<Rightarrow> world \<Rightarrow> send_email_result \<times> world" where
  "sendEmail_catch configId e w =
     (\<lparr>sendSuccess = False, sendMessageId = None, sendError = Some e, sendStatus = Failed\<rparr>,
      if configId \<noteq> []
      then updateDailyStats configId False (updateSMTPStats configId False w)
      else w)"

definition sendEmail ::
  "(nat \<Rightarrow> transport_outcome) \<Rightarrow> string \<Rightarrow> email_options \<Rightarrow> world
    \<Rightarrow> send_email_result \<times> world" where
  "sendEmail transport configId emailOptions w =
     (case findById sid configId (smtpConfigModel w) of
        None \<Rightarrow> sendEmail_catch configId ConfigNotFoundOrInactive w
      | Some config \<Rightarrow>
          if \<not> isActive config then sendEmail_catch configId ConfigNotFoundOrInactive w
          else
            (case checkAndUpdateRateLimit config w of
               (Inl e, w1) \<Rightarrow> sendEmail_catch configId e w1
             | (Inr u, w1) \<Rightarrow>
                 (case transport (transportCalls w1) of
                    VerifyFails m \<Rightarrow>
                      sendEmail_catch configId (TransportError m)
                        (w1\<lparr>transportCalls := Suc (transportCalls w1)\<rparr>)
                  | SendFails m \<Rightarrow>
                      sendEmail_catch configId (TransportError m)
                        (w1\<lparr>transportCalls := Suc (transportCalls w1),
                            outbox := outbox w1 @ [emailOptions]\<rparr>)
                  | SendAccepts mid \<Rightarrow>
                      (\<lparr>sendSuccess = True, sendMessageId = Some mid, sendError = None,
                        sendStatus = Sent\<rparr>,
                       updateDailyStats (sid config) True
                         (updateSMTPStats (sid config) True
                            (w1\<lparr>transportCalls := Suc (transportCalls w1),
                                outbox := outbox w1 @ [emailOptions]\<rparr>))))))"

section \<open>The dispatch pass (CampaignService)\<close>

datatype campaign_error =
  CampaignNotFound
  | CannotBeStartedFrom campaign_status
  | CampaignNotFoundAfterUpdate
  | SmtpConfigurationNotFound
  | NotFoundOrNotRunning
  | NotFoundOrNotPaused

definition nextHour :: "date \<Rightarrow> date" where
  "nextHour t = (t div 3600000 + 1) * 3600000"

definition isPending :: "campaign_email \<Rightarrow> bool" where
  "isPending e = (status e = Pending)"

text \<open>
  The body of the \<open>try\<close> block for one e-mail of the pass: personalize, send, write the
  outcome to the store, wait. A result without \<open>messageId\<close> or without \<open>error\<close> has
  \<open>undefined\<close> there, and an assignment of \<open>undefined\<close> is left out of \<open>$set\<close>: the
  stored field stays as it is. \<open>sendEmail\<close> returns a result for every error of the
  sending path, so the \<open>catch\<close> block of the loop is entered only when the store itself
  fails, which this development does not consider.
\<close>

definition processOneEmail ::
  "(nat \<Rightarrow> transport_outcome) \<Rightarrow> campaign \<Rightarrow> email_template option \<Rightarrow> smtp_config
    \<Rightarrow> int \<Rightarrow> campaign_email \<Rightarrow> world \<Rightarrow> world" where
  "processOneEmail transport campaign template smtpConfig delay e w =
     (let subj = (case template of
                    Some t \<Rightarrow> personalizeTemplate (subject t) (variables e)
                  | None \<Rightarrow> ''Default Subject'');
          bod = (case template of
                   Some t \<Rightarrow> personalizeTemplate (body t) (variables e)
                 | None \<Rightarrow> ''Default email body'');
          (result, w1) =
             sendEmail transport (sid smtpConfig)
               \<lparr>to = email e, optSubject = subj, html = bod,
                trackingId = trackingIdOf (cid campaign) (email e) (nat (clock w))\<rparr> w;
          w2 = w1\<lparr>campaignModel :=
                   updateOneEmail (cid campaign) (email e)
                     (\<lambda>c. c\<lparr>emailsSent := emailsSent c + 1,
                            emailsDelivered := (if sendSuccess result then emailsDelivered c + 1
                                                else emailsDelivered c),
                            emailsFailed := (if sendSuccess result then emailsFailed c
                                             else emailsFailed c + 1),
                            lastEmailSentAt := Some (clock w1)\<rparr>)
                     (\<lambda>x. x\<lparr>status := (if sendSuccess result then Sent else Failed),
                            sentAt := Some (clock w1),
                            messageId := (case sendMessageId result of
                                            None \<Rightarrow> messageId x
                                          | Some m \<Rightarrow> Some m),
                            error := (case sendError result of
                                        None \<Rightarrow> error x
                                      | Some err \<Rightarrow> Some err)\<rparr>)
                     (campaignModel w1)\<rparr>
      in if delay > 0 then w2\<lparr>clock := clock w2 + delay\<rparr> else w2)"

text \<open>
  The \<open>for\<close> loop over \<open>pendingEmails\<close>, with the counter \<open>emailsSentThisHour\<close>. When the
  counter has reached \<open>maxPerHour\<close> the loop registers the callback
  \<open>() => this.processCampaignEmails(campaign)\<close> for the next full hour and breaks.

  The pass is asynchronous: while it awaits the store, the transport and the delay, the
  process serves other requests. \<open>others n\<close> is what the requests served during the
  \<open>n\<close>-th iteration do to the state; \<open>quiet\<close> is a process that serves none.
\<close>

definition quiet :: "int \<Rightarrow> world \<Rightarrow> world" where
  "quiet n w = w"

fun processLoop ::
  "(nat \<Rightarrow> transport_outcome) \<Rightarrow> (int \<Rightarrow> world \<Rightarrow> world) \<Rightarrow> campaign
    \<Rightarrow> email_template option \<Rightarrow> smtp_config
    \<Rightarrow> int \<Rightarrow> int \<Rightarrow> int \<Rightarrow> campaign_email list \<Rightarrow> world \<Rightarrow> world" where
  "processLoop transport others campaign template smtpConfig delay maxPerHour
     emailsSentThisHour [] w = w"
| "processLoop transport others campaign template smtpConfig delay maxPerHour
     emailsSentThisHour (e # rest) w =
     (if emailsSentThisHour \<ge> maxPerHour
      then w\<lparr>timers := timers w @ [(nextHour (clock w), campaign)]\<rparr>
      else processLoop transport others campaign template smtpConfig delay maxPerHour
             (emailsSentThisHour + 1) rest
             (others emailsSentThisHour
                (processOneEmail transport campaign template smtpConfig delay e w)))"

definition markCompleted :: "string \<Rightarrow> world \<Rightarrow> world" where
  "markCompleted campaignId w =
     w\<lparr>campaignModel :=
         updateById cid campaignId
           (\<lambda>c. c\<lparr>cstatus := Completed, completedAt := Some (clock w)\<rparr>)
           (campaignModel w)\<rparr>"

text \<open>The check after the loop: the campaign is read again from the store.\<close>

definition completionCheck :: "string \<Rightarrow> world \<Rightarrow> world" where
  "completionCheck campaignId w =
     (case findById cid campaignId (campaignModel w) of
        None \<Rightarrow> w
      | Some updatedCampaign \<Rightarrow>
          if length (filter isPending (emails updatedCampaign)) = 0
          then markCompleted campaignId w
          else w)"

text \<open>\<open>x || d\<close> on an optional number: \<open>undefined\<close> and \<open>0\<close> give the default.\<close>

definition orDefault :: "int option \<Rightarrow> int \<Rightarrow> int" where
  "orDefault x d = (case x of None \<Rightarrow> d | Some v \<Rightarrow> if v = 0 then d else v)"

text \<open>
  \<open>processCampaignEmails(campaign)\<close>: the pending e-mails are those of the object
  \<open>campaign\<close> that the caller passes, not of the stored document.
\<close>

definition processCampaignEmails ::
  "(nat \<Rightarrow> transport_outcome) \<Rightarrow> (int \<Rightarrow> world \<Rightarrow> world) \<Rightarrow> campaign \<Rightarrow> world
    \<Rightarrow> campaign_error + world" where
  "processCampaignEmails transport others campaign w =
     (let pendingEmails = filter isPending (emails campaign)
      in if length pendingEmails = 0 then Inr (markCompleted (cid campaign) w)
         else
           (let template = (case templateId campaign of
                              None \<Rightarrow> None
                            | Some t \<Rightarrow> findById tid t (emailTemplateModel w))
            in case findById sid (smtpConfigId campaign) (smtpConfigModel w) of
                 None \<Rightarrow> Inl SmtpConfigurationNotFound
               | Some smtpConfig \<Rightarrow>
                   Inr (completionCheck (cid campaign)
                          (processLoop transport others campaign template smtpConfig
                             (orDefault (delayBetweenEmails campaign) 1000)
                             (orDefault (maxEmailsPerHour campaign) 100)
                             0 pendingEmails w))))"

definition startCampaign ::
  "(nat \<Rightarrow> transport_outcome) \<Rightarrow> (int \<Rightarrow> world \<Rightarrow> world) \<Rightarrow> string \<Rightarrow> string \<Rightarrow> world
    \<Rightarrow> campaign_error + world" where
  "startCampaign transport others campaignId uid w =
     (case find (\<lambda>c. cid c = campaignId \<and> userId c = uid) (campaignModel w) of
        None \<Rightarrow> Inl CampaignNotFound
      | Some c \<Rightarrow>
          if cstatus c \<noteq> Draft \<and> cstatus c \<noteq> Paused then Inl (CannotBeStartedFrom (cstatus c))
          else
            (let w1 = w\<lparr>campaignModel :=
                         updateById cid campaignId
                           (\<lambda>d. d\<lparr>cstatus := Running, startedAt := Some (clock w)\<rparr>)
                           (campaignModel w)\<rparr>
             in case findById cid campaignId (campaignModel w1) of
                  None \<Rightarrow> Inl CampaignNotFoundAfterUpdate
                | Some updatedCampaign \<Rightarrow>
                    processCampaignEmails transport others updatedCampaign w1))"

definition isRunningCampaign :: "string \<Rightarrow> string \<Rightarrow> campaign \<Rightarrow> bool" where
  "isRunningCampaign campaignId uid c =
     (cid c = campaignId \<and> userId c = uid \<and> cstatus c = Running)"

definition pauseCampaign :: "string \<Rightarrow> string \<Rightarrow> world \<Rightarrow> campaign_error + world" where
  "pauseCampaign campaignId uid w =
     (case find (isRunningCampaign campaignId uid) (campaignModel w) of
        None \<Rightarrow> Inl NotFoundOrNotRunning
      | Some c \<Rightarrow>
          Inr (w\<lparr>campaignModel :=
                  updateFirst (isRunningCampaign campaignId uid) (\<lambda>d. d\<lparr>cstatus := Paused\<rparr>)
                    (campaignModel w)\<rparr>))"

definition isPausedCampaign :: "string \<Rightarrow> string \<Rightarrow> campaign \<Rightarrow> bool" where
  "isPausedCampaign campaignId uid c =
     (cid c = campaignId \<and> userId c = uid \<and> cstatus c = Paused)"

definition resumeCampaign ::
  "(nat \<Rightarrow> transport_outcome) \<Rightarrow> (int \<Rightarrow> world \<Rightarrow> world) \<Rightarrow> string \<Rightarrow> string \<Rightarrow> world
    \<Rightarrow> campaign_error + world" where
  "resumeCampaign transport others campaignId uid w =
     (case find (isPausedCampaign campaignId uid) (campaignModel w) of
        None \<Rightarrow> Inl NotFoundOrNotPaused
      | Some c \<Rightarrow>
          processCampaignEmails transport others (c\<lparr>cstatus := Running\<rparr>)
            (w\<lparr>campaignModel :=
                 updateFirst (isPausedCampaign campaignId uid) (\<lambda>d. d\<lparr>cstatus := Running\<rparr>)
                   (campaignModel w)\<rparr>))"

text \<open>
  The callback of the first registered timer runs when its time has come: it calls
  \<open>processCampaignEmails\<close> with the campaign object it holds.
\<close>

definition runTimer ::
  "(nat \<Rightarrow> transport_outcome) \<Rightarrow> (int \<Rightarrow> world \<Rightarrow> world) \<Rightarrow> world
    \<Rightarrow> campaign_error + world" where
  "runTimer transport others w =
     (case timers w of
        [] \<Rightarrow> Inr w
      | (due, campaign) # rest \<Rightarrow>
          processCampaignEmails transport others campaign
            (w\<lparr>timers := rest, clock := max due (clock w)\<rparr>))"

section \<open>Observations and scenarios\<close>

text \<open>What the properties below read off a state, and the concrete states they use.\<close>

subsection \<open>Recipients of a stored campaign\<close>

definition recipientOf :: "string \<Rightarrow> string \<Rightarrow> campaign list \<Rightarrow> campaign_email option" where
  "recipientOf campaignId address coll =
     (case findById cid campaignId coll of
        None \<Rightarrow> None
      | Some c \<Rightarrow> find (\<lambda>e. email e = address) (emails c))"

definition recipientStatus :: "string \<Rightarrow> string \<Rightarrow> campaign list \<Rightarrow> email_status option" where
  "recipientStatus campaignId address coll = map_option status (recipientOf campaignId address coll)"

definition recipientOpenCount :: "string \<Rightarrow> string \<Rightarrow> campaign list \<Rightarrow> int option" where
  "recipientOpenCount campaignId address coll =
     map_option openCount (recipientOf campaignId address coll)"

definition repliedRecipient :: campaign_email where
  "repliedRecipient =
     \<lparr>email = ''ann@x.io'', variables = [], status = Replied, messageId = Some ''m1'',
      error = None, sentAt = Some 1000, openedAt = Some 2000, clickedAt = Some 3000,
      openCount = 0, clickCount = 0\<rparr>"

definition repliedCampaign :: campaign where
  "repliedCampaign =
     \<lparr>cid = ''c1'', userId = ''u1'', smtpConfigId = ''s1'', templateId = None,
      emails = [repliedRecipient], cstatus = Completed, startedAt = Some 500,
      completedAt = Some 1500, totalEmails = 1, emailsSent = 1, emailsDelivered = 1,
      emailsOpened = 0, emailsClicked = 0, emailsReplied = 1, emailsFailed = 0,
      delayBetweenEmails = None, maxEmailsPerHour = None, lastEmailSentAt = Some 1000\<rparr>"



subsection \<open>Templates as text and placeholders\<close>

text \<open>
  A template seen as a sequence of pieces, each a text or a placeholder. \<open>render\<close> is the
  template's string. \<open>fillPiece\<close> is a piece after personalization as the properties
  below state it: a text is itself, a placeholder is the value of its key, and a
  placeholder whose key is not among the variables is itself.
\<close>

datatype piece = Text string | Hole string

fun renderPiece :: "piece \<Rightarrow> string" where
  "renderPiece (Text s) = s"
| "renderPiece (Hole k) = placeholder k"

definition render :: "piece list \<Rightarrow> string" where
  "render ps = concat (map renderPiece ps)"

fun fillPiece :: "(string \<times> string) list \<Rightarrow> piece \<Rightarrow> string" where
  "fillPiece vars (Text s) = s"
| "fillPiece vars (Hole k) = (case map_of vars k of Some v \<Rightarrow> v | None \<Rightarrow> placeholder k)"

definition braceFree :: "string \<Rightarrow> bool" where
  "braceFree s = (CHR ''{'' \<notin> set s \<and> CHR ''}'' \<notin> set s)"

fun plainPiece :: "piece \<Rightarrow> bool" where
  "plainPiece (Text s) = (CHR ''{'' \<notin> set s)"
| "plainPiece (Hole k) = braceFree k"

definition plainVariable :: "string \<times> string \<Rightarrow> bool" where
  "plainVariable kv = (braceFree (fst kv) \<and> CHR ''{'' \<notin> set (snd kv) \<and> CHR ''$'' \<notin> set (snd kv))"

fun fillOne :: "string \<Rightarrow> string \<Rightarrow> piece \<Rightarrow> piece" where
  "fillOne k v (Text s) = Text s"
| "fillOne k v (Hole k') = (if k' = k then Text v else Hole k')"

subsection \<open>Counters of a configuration, and a small world\<close>

definition sentTodayOf :: "string \<Rightarrow> world \<Rightarrow> int option" where
  "sentTodayOf configId w = map_option emailsSentToday (findById sid configId (smtpConfigModel w))"

definition hourlySent :: "string \<Rightarrow> world \<Rightarrow> int" where
  "hourlySent configId w =
     (case dailyStats w (configId, getHours (clock w)) of None \<Rightarrow> 0 | Some (sent, failed) \<Rightarrow> sent)"

definition isNewDay :: "smtp_config \<Rightarrow> world \<Rightarrow> bool" where
  "isNewDay config w =
     (toDateString (case lastResetDate config of None \<Rightarrow> startOfDay (clock w) | Some d \<Rightarrow> d)
        \<noteq> toDateString (clock w))"

definition providerOf :: "int \<Rightarrow> int \<Rightarrow> date option \<Rightarrow> smtp_config" where
  "providerOf limit sentToday lastReset =
     \<lparr>sid = ''s1'', smtpName = ''main'', isActive = True, dailyLimit = limit,
      hourlyRateLimit = 0, emailsSentToday = sentToday, totalEmailsSent = sentToday,
      smtpEmailsFailed = 0, lastResetDate = lastReset\<rparr>"

definition pendingRecipient :: "string \<Rightarrow> campaign_email" where
  "pendingRecipient address =
     \<lparr>email = address, variables = [], status = Pending, messageId = None, error = None,
      sentAt = None, openedAt = None, clickedAt = None, openCount = 0, clickCount = 0\<rparr>"

definition draftCampaign :: "string list \<Rightarrow> int option \<Rightarrow> campaign" where
  "draftCampaign addresses perHour =
     \<lparr>cid = ''c1'', userId = ''u1'', smtpConfigId = ''s1'', templateId = None,
      emails = map pendingRecipient addresses, cstatus = Draft, startedAt = None,
      completedAt = None, totalEmails = int (length addresses), emailsSent = 0,
      emailsDelivered = 0, emailsOpened = 0, emailsClicked = 0, emailsReplied = 0,
      emailsFailed = 0, delayBetweenEmails = None, maxEmailsPerHour = perHour,
      lastEmailSentAt = None\<rparr>"

definition worldOf :: "smtp_config \<Rightarrow> campaign \<Rightarrow> date \<Rightarrow> world" where
  "worldOf config c now =
     \<lparr>smtpConfigModel = [config], campaignModel = [c], emailTemplateModel = [],
      dailyStats = Map.empty, clock = now, transportCalls = 0, outbox = [], timers = []\<rparr>"

definition acceptAll :: "nat \<Rightarrow> transport_outcome" where
  "acceptAll n = SendAccepts ''m''"

definition rejectAll :: "nat \<Rightarrow> transport_outcome" where
  "rejectAll n = SendFails ''refused''"

definition mailTo :: "string \<Rightarrow> email_options" where
  "mailTo address = \<lparr>to = address, optSubject = ''s'', html = ''b'', trackingId = ''c1_x_1''\<rparr>"

subsection \<open>Campaign outcomes and the scenarios of the pass\<close>

definition campaignOf :: "string \<Rightarrow> world \<Rightarrow> campaign option" where
  "campaignOf campaignId w = findById cid campaignId (campaignModel w)"

definition campaignStatusOf :: "string \<Rightarrow> world \<Rightarrow> campaign_status option" where
  "campaignStatusOf campaignId w = map_option cstatus (campaignOf campaignId w)"

definition recipientStatuses :: "string \<Rightarrow> world \<Rightarrow> email_status list" where
  "recipientStatuses campaignId w =
     (case campaignOf campaignId w of None \<Rightarrow> [] | Some c \<Rightarrow> map status (emails c))"

definition recipientErrors :: "string \<Rightarrow> world \<Rightarrow> send_error option list" where
  "recipientErrors campaignId w =
     (case campaignOf campaignId w of None \<Rightarrow> [] | Some c \<Rightarrow> map error (emails c))"

definition sentTo :: "world \<Rightarrow> string list" where
  "sentTo w = map to (outbox w)"

definition thenRunTimer :: "campaign_error + world \<Rightarrow> campaign_error + world" where
  "thenRunTimer r = (case r of Inl e \<Rightarrow> Inl e | Inr w \<Rightarrow> runTimer acceptAll quiet w)"

definition dailyLimitScenario :: "campaign_error + world" where
  "dailyLimitScenario =
     startCampaign acceptAll quiet ''c1'' ''u1''
       (worldOf (providerOf 2 0 (Some 1000))
          (draftCampaign [''ann@x.io'', ''bob@x.io'', ''cy@x.io''] None) 5000)"

definition hourlyCapScenario :: "campaign_error + world" where
  "hourlyCapScenario =
     startCampaign acceptAll quiet ''c1'' ''u1''
       (worldOf (providerOf 0 0 (Some 1000))
          (draftCampaign [''ann@x.io'', ''bob@x.io''] (Some 1)) 5000)"

definition failedSendScenario :: "campaign_error + world" where
  "failedSendScenario =
     startCampaign rejectAll quiet ''c1'' ''u1''
       (worldOf (providerOf 0 0 (Some 1000)) (draftCampaign [''ann@x.io''] None) 5000)"

definition pauseDuringFirst :: "int \<Rightarrow> world \<Rightarrow> world" where
  "pauseDuringFirst n w =
     (if n = 0 then (case pauseCampaign ''c1'' ''u1'' w of Inl e \<Rightarrow> w | Inr w' \<Rightarrow> w') else w)"

definition pausedMidBatchScenario :: "campaign_error + world" where
  "pausedMidBatchScenario =
     startCampaign acceptAll pauseDuringFirst ''c1'' ''u1''
       (worldOf (providerOf 0 0 (Some 1000))
          (draftCampaign [''ann@x.io'', ''bob@x.io''] None) 5000)"

text \<open>The change of state that a successful \<open>pauseCampaign\<close> makes.\<close>

definition pausing :: "string \<Rightarrow> string \<Rightarrow> world \<Rightarrow> world" where
  "pausing campaignId uid w =
     w\<lparr>campaignModel :=
         updateFirst (isRunningCampaign campaignId uid) (\<lambda>d. d\<lparr>cstatus := Paused\<rparr>)
           (campaignModel w)\<rparr>"

definition runningWorld :: world where
  "runningWorld =
     worldOf (providerOf 0 0 (Some 1000))
       ((draftCampaign [''ann@x.io'', ''bob@x.io''] None)\<lparr>cstatus := Running\<rparr>) 5000"

definition pausedWorld :: world where
  "pausedWorld =
     worldOf (providerOf 0 0 (Some 1000))
       ((draftCampaign [''ann@x.io'', ''bob@x.io''] None)\<lparr>cstatus := Paused\<rparr>) 5000"

section \<open>Facts about the store\<close>

lemma find_updateFirst_same:
  "(\<And>x. P x \<Longrightarrow> P (f x)) \<Longrightarrow> find P (updateFirst P f xs) = map_option f (find P xs)"
  by (induction xs) auto

lemma updateFirst_stronger:
  "find P xs = Some x \<Longrightarrow> Q x \<Longrightarrow> updateFirst (\<lambda>y. P y \<and> Q y) f xs = updateFirst P f xs"
  by (induction xs) (auto split: if_splits)

lemma find_Some_holds: "find P xs = Some x \<Longrightarrow> P x"
  by (induction xs) (auto split: if_splits)

lemma hasEmail_find: "find (\<lambda>e. email e = a) (emails c) = Some e \<Longrightarrow> hasEmail a c"
  by (auto simp: hasEmail_def list_ex_iff find_Some_iff)

lemma recipientOf_updateOneEmail:
  assumes "recipientOf c a coll = Some e"
    and "\<And>d. cid (onDoc d) = cid d" and "\<And>d. emails (onDoc d) = emails d"
    and "\<And>x. email (onEl x) = email x"
  shows "recipientOf c a (updateOneEmail c a onDoc onEl coll) = Some (onEl e)"
proof -
  from assms(1) obtain d where d: "findById cid c coll = Some d"
    and e: "find (\<lambda>x. email x = a) (emails d) = Some e"
    by (auto simp: recipientOf_def split: option.splits)
  let ?f = "\<lambda>d. onDoc (d\<lparr>emails := updateFirst (\<lambda>x. email x = a) onEl (emails d)\<rparr>)"
  have "updateOneEmail c a onDoc onEl coll = updateFirst (\<lambda>y. cid y = c) ?f coll"
    unfolding updateOneEmail_def
    using updateFirst_stronger [of "\<lambda>y. cid y = c" coll d "hasEmail a" ?f] d hasEmail_find [OF e]
    by (simp add: findById_def)
  moreover have "find (\<lambda>y. cid y = c) (updateFirst (\<lambda>y. cid y = c) ?f coll) = Some (?f d)"
    using d find_updateFirst_same [of "\<lambda>y. cid y = c" ?f coll] assms(2)
    by (simp add: findById_def)
  moreover have "find (\<lambda>x. email x = a) (emails (?f d)) = Some (onEl e)"
    using e find_updateFirst_same [of "\<lambda>x. email x = a" onEl "emails d"] assms(3,4)
    by simp
  ultimately show ?thesis
    by (simp add: recipientOf_def findById_def)
qed

section \<open>The tracking token\<close>

lemma js_split_not_Nil: "js_split d s \<noteq> []"
  by (induction s) (auto split: list.splits)

lemma js_split_segment:
  "d \<notin> set a \<Longrightarrow> js_split d (a @ d # rest) = a # js_split d rest"
  by (induction a) (auto split: list.splits)

lemma parseTrackingId_two_segments:
  assumes "CHR ''_'' \<notin> set c" and "CHR ''_'' \<notin> set a"
  shows "parseTrackingId (c @ ''_'' @ a @ ''_'' @ rest) = Inr (c, a)"
proof -
  obtain p ps where tail: "js_split CHR ''_'' rest = p # ps"
    using js_split_not_Nil [of "CHR ''_''" rest] by (cases "js_split CHR ''_'' rest") auto
  have "js_split CHR ''_'' (c @ ''_'' @ a @ ''_'' @ rest) = c # a # p # ps"
    using assms tail by (simp add: js_split_segment)
  then show ?thesis
    by (simp add: parseTrackingId_def)
qed

text \<open>
  C7. A token built from a campaign id and an address that contain no underscore parses
  back to that campaign id and that address. Only the first two segments are read: the
  third segment may be the rendering of \<open>Date.now()\<close> or any other text.
\<close>

theorem tracking_token_round_trip:
  assumes "CHR ''_'' \<notin> set campaignId" and "CHR ''_'' \<notin> set address"
  shows "parseTrackingId (trackingIdOf campaignId address epochMillis) = Inr (campaignId, address)
       \<and> parseTrackingId (campaignId @ ''_'' @ address @ ''_'' @ rest) = Inr (campaignId, address)"
  using parseTrackingId_two_segments [OF assms, of "digitsOf epochMillis"]
    parseTrackingId_two_segments [OF assms, of rest]
  by (simp add: trackingIdOf_def)

text \<open>The theorem for C7 at the token of campaign \<open>c1\<close> and address \<open>ann@x.io\<close>.\<close>

theorem tracking_token_round_trip_witness:
  "CHR ''_'' \<notin> set ''c1'' \<and> CHR ''_'' \<notin> set ''ann@x.io''
   \<and> parseTrackingId (trackingIdOf ''c1'' ''ann@x.io'' 5000) = Inr (''c1'', ''ann@x.io'')
   \<and> parseTrackingId (''c1'' @ ''_'' @ ''ann@x.io'' @ ''_'' @ ''later'') = Inr (''c1'', ''ann@x.io'')"
proof -
  have c: "CHR ''_'' \<notin> set ''c1''" by simp
  have a: "CHR ''_'' \<notin> set ''ann@x.io''" by simp
  from tracking_token_round_trip [OF c a, of 5000 "''later''"] c a show ?thesis
    by blast
qed

section \<open>Tracking ingest\<close>

text \<open>
  C8, as amended. The update of \<open>trackOpen\<close> carries no condition on the recipient's
  current status. For a token that parses and a recipient that is stored, whatever status
  \<open>s\<close> the recipient has (\<open>clicked\<close> and \<open>replied\<close> included): where the store applies
  the update the status becomes \<open>opened\<close>, and where it rejects the update document the
  status stays \<open>s\<close>.
\<close>

theorem trackOpen_sets_opened_without_guard:
  assumes "parseTrackingId token = Inr (campaignId, address)"
    and "recipientStatus campaignId address coll = Some s"
  shows "recipientStatus campaignId address (fst (snd (trackOpen h now token coll)))
         = Some (case h of IgnoreOperator \<Rightarrow> Opened | RejectUpdate \<Rightarrow> s)"
proof (cases h)
  case RejectUpdate
  then show ?thesis using assms by (simp add: trackOpen_def)
next
  case IgnoreOperator
  from assms(2) obtain e where e: "recipientOf campaignId address coll = Some e"
    by (auto simp: recipientStatus_def)
  have "recipientOf campaignId address
          (updateOneEmail campaignId address (\<lambda>c. c)
             (\<lambda>e. e\<lparr>openedAt := Some now, status := Opened\<rparr>) coll)
        = Some (e\<lparr>openedAt := Some now, status := Opened\<rparr>)"
    by (rule recipientOf_updateOneEmail [OF e]) simp_all
  then show ?thesis using IgnoreOperator assms(1)
    by (simp add: trackOpen_def recipientStatus_def)
qed

lemmas tracking_defs = findById_def updateOneEmail_def hasEmail_def trackOpen_def
  parseTrackingId_def

text \<open>The theorem for C8 at a recipient whose status is \<open>replied\<close>.\<close>

theorem trackOpen_sets_opened_without_guard_witness:
  "parseTrackingId ''c1_ann@x.io_5000'' = Inr (''c1'', ''ann@x.io'')
   \<and> recipientStatus ''c1'' ''ann@x.io'' [repliedCampaign] = Some Replied
   \<and> recipientStatus ''c1'' ''ann@x.io''
        (fst (snd (trackOpen IgnoreOperator 7000 ''c1_ann@x.io_5000'' [repliedCampaign])))
      = Some Opened"
proof -
  have p: "parseTrackingId ''c1_ann@x.io_5000'' = Inr (''c1'', ''ann@x.io'')"
    by (simp add: parseTrackingId_def)
  have s: "recipientStatus ''c1'' ''ann@x.io'' [repliedCampaign] = Some Replied"
    by (simp add: tracking_defs recipientOf_def recipientStatus_def recipientOpenCount_def
        repliedCampaign_def repliedRecipient_def)
  from trackOpen_sets_opened_without_guard [OF p s, of IgnoreOperator 7000] p s
  show ?thesis by simp
qed

text \<open>
  C8, as stated, fails. A recipient with status \<open>replied\<close> and open count 0: one
  \<open>trackOpen\<close> whose update is applied leaves the status \<open>opened\<close>, and after two
  \<open>trackOpen\<close> calls the open count is still 0, whether the store ignores the operator
  \<open>$Inc\<close> or rejects the update.
\<close>

theorem trackOpen_counterexample:
  "recipientStatus ''c1'' ''ann@x.io''
     (fst (snd (trackOpen IgnoreOperator 7000 ''c1_ann@x.io_5000'' [repliedCampaign])))
   = Some Opened
   \<and> recipientOpenCount ''c1'' ''ann@x.io''
       (fst (snd (trackOpen IgnoreOperator 8000 ''c1_ann@x.io_5000''
          (fst (snd (trackOpen IgnoreOperator 7000 ''c1_ann@x.io_5000'' [repliedCampaign]))))))
     = Some 0
   \<and> recipientOpenCount ''c1'' ''ann@x.io''
       (fst (snd (trackOpen RejectUpdate 8000 ''c1_ann@x.io_5000''
          (fst (snd (trackOpen RejectUpdate 7000 ''c1_ann@x.io_5000'' [repliedCampaign]))))))
     = Some 0"
  by (simp add: tracking_defs recipientOf_def recipientStatus_def recipientOpenCount_def
        repliedCampaign_def repliedRecipient_def)




section \<open>Personalization\<close>

lemma getSubstitution_plain:
  "CHR ''$'' \<notin> set v \<Longrightarrow> getSubstitution m p a v = v"
  by (induction m p a v rule: getSubstitution.induct) auto

lemma replaceGlobal_match:
  "pat \<noteq> [] \<Longrightarrow> replaceGlobal pat v passed (pat @ rest)
     = getSubstitution pat passed rest v @ replaceGlobal pat v (passed @ pat) rest"
  by (cases pat) simp_all

lemma replaceGlobal_no_match:
  "take (length pat) (c # s) \<noteq> pat \<Longrightarrow>
     replaceGlobal pat v passed (c # s) = c # replaceGlobal pat v (passed @ [c]) s"
  by simp

lemma replaceGlobal_skip_text:
  "CHR ''{'' \<notin> set s \<Longrightarrow>
     replaceGlobal (placeholder k) v passed (s @ rest)
       = s @ replaceGlobal (placeholder k) v (passed @ s) rest"
proof (induction s arbitrary: passed)
  case Nil
  then show ?case by simp
next
  case (Cons c s)
  then have "take (length (placeholder k)) (c # s @ rest) \<noteq> placeholder k"
    by (auto simp: placeholder_def)
  then show ?case using Cons
    by (simp only: append_Cons replaceGlobal_no_match) simp
qed

lemma key_prefix_eq:
  "CHR ''}'' \<notin> set k \<Longrightarrow> CHR ''}'' \<notin> set k' \<Longrightarrow>
     take (length k + 2) (k' @ ''}}'' @ rest) = k @ ''}}'' \<Longrightarrow> k = k'"
proof (induction k arbitrary: k')
  case Nil
  then show ?case by (cases k') auto
next
  case (Cons x k)
  then show ?case by (cases k') auto
qed

lemma replaceGlobal_other_hole:
  assumes "k' \<noteq> k" and "braceFree k" and "braceFree k'"
  shows "replaceGlobal (placeholder k) v passed (placeholder k' @ rest)
           = placeholder k' @ replaceGlobal (placeholder k) v (passed @ placeholder k') rest"
proof -
  have n1: "take (length (placeholder k)) (CHR ''{'' # CHR ''{'' # k' @ ''}}'' @ rest)
              \<noteq> placeholder k"
  proof
    assume "take (length (placeholder k)) (CHR ''{'' # CHR ''{'' # k' @ ''}}'' @ rest)
              = placeholder k"
    then have "take (length k + 2) (k' @ ''}}'' @ rest) = k @ ''}}''"
      by (simp add: placeholder_def)
    with assms show False
      using key_prefix_eq [of k k' rest] by (auto simp: braceFree_def)
  qed
  have n2: "take (length (placeholder k)) (CHR ''{'' # k' @ ''}}'' @ rest) \<noteq> placeholder k"
    using assms(3) by (cases k') (auto simp: placeholder_def braceFree_def)
  have t: "CHR ''{'' \<notin> set (k' @ ''}}'')"
    using assms(3) by (simp add: braceFree_def)
  have "replaceGlobal (placeholder k) v passed (CHR ''{'' # CHR ''{'' # k' @ ''}}'' @ rest)
          = CHR ''{'' # CHR ''{'' # (k' @ ''}}'')
              @ replaceGlobal (placeholder k) v (passed @ ''{{'' @ (k' @ ''}}'')) rest"
    using replaceGlobal_skip_text [OF t, of k v "passed @ ''{{''" rest]
    by (simp only: replaceGlobal_no_match [OF n1] replaceGlobal_no_match [OF n2]) simp
  then show ?thesis
    by (simp add: placeholder_def)
qed

lemma render_Cons: "render (p # ps) = renderPiece p @ render ps"
  by (simp add: render_def)

lemma replaceGlobal_render:
  assumes "braceFree k" and "CHR ''$'' \<notin> set v" and "list_all plainPiece ps"
  shows "replaceGlobal (placeholder k) v passed (render ps) = render (map (fillOne k v) ps)"
  using assms(3)
proof (induction ps arbitrary: passed)
  case Nil
  then show ?case by (simp add: render_def)
next
  case (Cons p ps)
  then have ih: "\<And>q. replaceGlobal (placeholder k) v q (render ps) = render (map (fillOne k v) ps)"
    by simp
  show ?case
  proof (cases p)
    case (Text s)
    with Cons.prems have "CHR ''{'' \<notin> set s" by simp
    then show ?thesis using Text ih
      by (simp add: render_Cons replaceGlobal_skip_text)
  next
    case (Hole k')
    show ?thesis
    proof (cases "k' = k")
      case True
      have "placeholder k \<noteq> []" by (simp add: placeholder_def)
      then show ?thesis using True Hole ih assms(2)
        by (simp add: render_Cons replaceGlobal_match getSubstitution_plain)
    next
      case False
      from Cons.prems Hole have "braceFree k'" by simp
      then show ?thesis using False Hole ih assms(1)
        by (simp add: render_Cons replaceGlobal_other_hole)
    qed
  qed
qed

lemma plainPiece_fillOne:
  "CHR ''{'' \<notin> set v \<Longrightarrow> list_all plainPiece ps \<Longrightarrow> list_all plainPiece (map (fillOne k v) ps)"
proof (induction ps)
  case Nil
  then show ?case by simp
next
  case (Cons p ps)
  then show ?case by (cases p) auto
qed

lemma fillPiece_fillOne: "fillPiece vars (fillOne k v p) = fillPiece ((k, v) # vars) p"
  by (cases p) auto

text \<open>
  C9, as amended. Take a template made of pieces of text without an opening brace and
  of placeholders \<open>{{key}}\<close> whose keys have no brace, and variables whose keys have no
  brace and whose values have no opening brace and no dollar sign. Then personalization
  replaces every placeholder whose key is among the variables by its value (the first
  one, in the order of the entries), and leaves every placeholder whose key is absent
  as it is.
\<close>

theorem personalizeTemplate_fills_present_keys:
  assumes "list_all plainPiece ps" and "list_all plainVariable vars"
  shows "personalizeTemplate (render ps) vars = concat (map (fillPiece vars) ps)"
  using assms
proof (induction vars arbitrary: ps)
  case Nil
  have "fillPiece [] p = renderPiece p" for p
    by (cases p) auto
  then have "fillPiece [] = renderPiece"
    by (rule ext)
  then show ?case by (simp add: personalizeTemplate_def render_def)
next
  case (Cons kv vars)
  obtain k v where kv: "kv = (k, v)" by (cases kv)
  from Cons.prems have rest: "list_all plainVariable vars" and "plainVariable kv"
    by simp_all
  with kv have k: "braceFree k" and v1: "CHR ''{'' \<notin> set v" and v2: "CHR ''$'' \<notin> set v"
    by (simp_all add: plainVariable_def)
  have step: "personalizeTemplate (render ps) (kv # vars)
                = personalizeTemplate (render (map (fillOne k v) ps)) vars"
    using replaceGlobal_render [OF k v2 Cons.prems(1), of "[]"] kv
    by (simp add: personalizeTemplate_def)
  have "personalizeTemplate (render (map (fillOne k v) ps)) vars
          = concat (map (fillPiece vars) (map (fillOne k v) ps))"
    using Cons.IH [OF plainPiece_fillOne [OF v1 Cons.prems(1)] rest] .
  also have "\<dots> = concat (map (fillPiece (kv # vars)) ps)"
    by (simp add: kv fillPiece_fillOne comp_def)
  finally show ?case using step by simp
qed

text \<open>The theorem for C9 at a template with one present and one absent key.\<close>

theorem personalizeTemplate_fills_present_keys_witness:
  "list_all plainPiece [Text ''Hi '', Hole ''name'', Text '', see '', Hole ''city'']
   \<and> list_all plainVariable [(''name'', ''Ann'')]
   \<and> personalizeTemplate ''Hi {{name}}, see {{city}}'' [(''name'', ''Ann'')]
       = ''Hi Ann, see {{city}}''"
proof -
  have p: "list_all plainPiece [Text ''Hi '', Hole ''name'', Text '', see '', Hole ''city'']"
    by (simp add: braceFree_def)
  have v: "list_all plainVariable [(''name'', ''Ann'')]"
    by (simp add: plainVariable_def braceFree_def)
  from personalizeTemplate_fills_present_keys [OF p v] p v show ?thesis
    by (simp add: render_def placeholder_def)
qed

text \<open>
  C9, as stated, fails: the placeholder of an absent key stays in the output instead of
  becoming the empty string, and a value that is itself a placeholder of a later key is
  replaced in turn.
\<close>

theorem personalizeTemplate_absent_key_counterexample:
  "personalizeTemplate ''Hi {{name}}'' [(''city'', ''Rome'')] = ''Hi {{name}}''
   \<and> personalizeTemplate ''{{a}}'' [(''a'', ''{{b}}''), (''b'', ''x'')] = ''x''"
  by (simp add: personalizeTemplate_def placeholder_def)

section \<open>The quota check and the counters\<close>

lemma findById_updateById:
  "(\<And>x. idOf (f x) = idOf x) \<Longrightarrow>
     findById idOf i (updateById idOf i f coll) = map_option f (findById idOf i coll)"
  unfolding findById_def updateById_def
  by (rule find_updateFirst_same) simp

lemma findById_sid: "findById sid i coll = Some c \<Longrightarrow> sid c = i"
  unfolding findById_def by (drule find_Some_holds) simp

lemma sentTodayOf_updateSMTPStats:
  "sentTodayOf i (updateSMTPStats i ok w) = map_option (\<lambda>n. n + 1) (sentTodayOf i w)"
  by (simp add: sentTodayOf_def updateSMTPStats_def findById_updateById option.map_comp comp_def)

lemma sentTodayOf_updateDailyStats [simp]:
  "sentTodayOf i (updateDailyStats j ok w) = sentTodayOf i w"
  by (simp add: sentTodayOf_def updateDailyStats_def Let_def)

lemma hourlySent_updateSMTPStats [simp]:
  "hourlySent i (updateSMTPStats j ok w) = hourlySent i w"
  by (simp add: hourlySent_def updateSMTPStats_def)

lemma hourlySent_updateDailyStats:
  "hourlySent i (updateDailyStats i ok w) = hourlySent i w + (if ok then 1 else 0)"
  by (simp add: hourlySent_def updateDailyStats_def Let_def split: option.splits prod.splits)

lemma sendEmail_catch_counters:
  assumes "i \<noteq> []"
  shows "sentTodayOf i (snd (sendEmail_catch i e w)) = map_option (\<lambda>n. n + 1) (sentTodayOf i w)"
    and "hourlySent i (snd (sendEmail_catch i e w)) = hourlySent i w"
    and "\<not> sendSuccess (fst (sendEmail_catch i e w))"
  using assms
  by (simp_all add: sendEmail_catch_def sentTodayOf_updateSMTPStats hourlySent_updateDailyStats)

lemma checkAndUpdateRateLimit_counters:
  assumes "findById sid i (smtpConfigModel w) = Some config"
  shows "sentTodayOf i (snd (checkAndUpdateRateLimit config w))
           = Some (if isNewDay config w then 0 else emailsSentToday config)"
    and "hourlySent i (snd (checkAndUpdateRateLimit config w)) = hourlySent i w"
    and "transportCalls (snd (checkAndUpdateRateLimit config w)) = transportCalls w"
proof -
  have s: "sid config = i" using assms by (rule findById_sid)
  show "sentTodayOf i (snd (checkAndUpdateRateLimit config w))
           = Some (if isNewDay config w then 0 else emailsSentToday config)"
    using assms s
    by (simp add: checkAndUpdateRateLimit_def Let_def sentTodayOf_def isNewDay_def
        findById_updateById)
  show "hourlySent i (snd (checkAndUpdateRateLimit config w)) = hourlySent i w"
    by (simp add: checkAndUpdateRateLimit_def Let_def hourlySent_def)
  show "transportCalls (snd (checkAndUpdateRateLimit config w)) = transportCalls w"
    by (simp add: checkAndUpdateRateLimit_def Let_def)
qed

lemma sentTodayOf_transport [simp]:
  "sentTodayOf i (w\<lparr>transportCalls := n\<rparr>) = sentTodayOf i w"
  "sentTodayOf i (w\<lparr>outbox := ob\<rparr>) = sentTodayOf i w"
  "hourlySent i (w\<lparr>transportCalls := n\<rparr>) = hourlySent i w"
  "hourlySent i (w\<lparr>outbox := ob\<rparr>) = hourlySent i w"
  by (simp_all add: sentTodayOf_def hourlySent_def)

text \<open>
  C6, as amended. For every call of \<open>sendEmail\<close> with the id of a stored configuration,
  \<open>emailsSentToday\<close> ends one above the value it had (one above 0 when the check has
  reset it for a new day), whichever way the call ends: the message accepted, the
  transport failing, the configuration inactive, or the admission denied. The \<open>sent\<close>
  counter of the hourly bucket, which the hourly check reads, goes up by one exactly when
  the result is a success.
\<close>

theorem sendEmail_counts_every_attempt:
  assumes "findById sid configId (smtpConfigModel w) = Some config" and "configId \<noteq> []"
  shows "sentTodayOf configId (snd (sendEmail transport configId mail w))
           = Some ((if isActive config \<and> isNewDay config w then 0 else emailsSentToday config) + 1)
       \<and> hourlySent configId (snd (sendEmail transport configId mail w))
           = hourlySent configId w
               + (if sendSuccess (fst (sendEmail transport configId mail w)) then 1 else 0)"
proof (cases "isActive config")
  case False
  have "sentTodayOf configId w = Some (emailsSentToday config)"
    using assms(1) by (simp add: sentTodayOf_def)
  then show ?thesis using False assms
    by (simp add: sendEmail_def sendEmail_catch_counters)
next
  case True
  obtain r w1 where c: "checkAndUpdateRateLimit config w = (r, w1)"
    by (cases "checkAndUpdateRateLimit config w")
  have s: "sid config = configId" using assms(1) by (rule findById_sid)
  have w1: "sentTodayOf configId w1 = Some (if isNewDay config w then 0 else emailsSentToday config)"
    "hourlySent configId w1 = hourlySent configId w"
    using checkAndUpdateRateLimit_counters [OF assms(1)] c by simp_all
  show ?thesis
  proof (cases r)
    case (Inl e)
    then show ?thesis using True assms c w1
      by (simp add: sendEmail_def sendEmail_catch_counters)
  next
    case (Inr u)
    show ?thesis
    proof (cases "transport (transportCalls w1)")
      case (VerifyFails m)
      then show ?thesis using True Inr assms c w1
        by (simp add: sendEmail_def sendEmail_catch_counters)
    next
      case (SendFails m)
      then show ?thesis using True Inr assms c w1
        by (simp add: sendEmail_def sendEmail_catch_counters)
    next
      case (SendAccepts mid)
      then show ?thesis using True Inr assms c w1 s
        by (simp add: sendEmail_def sentTodayOf_updateSMTPStats hourlySent_updateDailyStats)
    qed
  qed
qed

lemmas sending_defs = sendEmail_def sendEmail_catch_def checkAndUpdateRateLimit_def
  updateSMTPStats_def updateDailyStats_def findById_def updateById_def toDateString_def
  getHours_def startOfDay_def Let_def

lemmas world_defs = providerOf_def pendingRecipient_def draftCampaign_def worldOf_def
  acceptAll_def

text \<open>The theorem for C6 at a send that the transport refuses.\<close>

theorem sendEmail_counts_every_attempt_witness:
  "findById sid ''s1'' (smtpConfigModel (worldOf (providerOf 5 1 (Some 1000)) (draftCampaign [] None) 5000))
     = Some (providerOf 5 1 (Some 1000))
   \<and> ''s1'' \<noteq> []
   \<and> sentTodayOf ''s1'' (snd (sendEmail rejectAll ''s1'' (mailTo ''ann@x.io'')
        (worldOf (providerOf 5 1 (Some 1000)) (draftCampaign [] None) 5000))) = Some 2
   \<and> hourlySent ''s1'' (snd (sendEmail rejectAll ''s1'' (mailTo ''ann@x.io'')
        (worldOf (providerOf 5 1 (Some 1000)) (draftCampaign [] None) 5000))) = 0"
proof -
  let ?w = "worldOf (providerOf 5 1 (Some 1000)) (draftCampaign [] None) 5000"
  have f: "findById sid ''s1'' (smtpConfigModel ?w) = Some (providerOf 5 1 (Some 1000))"
    by (simp add: findById_def worldOf_def providerOf_def)
  have n: "''s1'' \<noteq> []" by simp
  have d: "\<not> isNewDay (providerOf 5 1 (Some 1000)) ?w"
    by (simp add: isNewDay_def providerOf_def worldOf_def toDateString_def)
  have e: "emailsSentToday (providerOf 5 1 (Some 1000)) = 1"
    by (simp add: providerOf_def)
  have h: "hourlySent ''s1'' ?w = 0"
    by (simp add: hourlySent_def worldOf_def)
  have r: "\<not> sendSuccess (fst (sendEmail rejectAll ''s1'' (mailTo ''ann@x.io'') ?w))"
    by (simp add: sending_defs world_defs rejectAll_def mailTo_def)
  from sendEmail_counts_every_attempt [OF f n, of rejectAll "mailTo ''ann@x.io''"] f d e h r
  show ?thesis by simp
qed

text \<open>
  C6, as stated, fails: with \<open>dailyLimit = 2\<close> and \<open>emailsSentToday = 2\<close> the admission is
  denied, the transport is never asked, and \<open>emailsSentToday\<close> is 3 afterwards.
\<close>

theorem denied_admission_is_counted_counterexample:
  "sendError (fst (sendEmail acceptAll ''s1'' (mailTo ''ann@x.io'')
      (worldOf (providerOf 2 2 (Some 1000)) (draftCampaign [] None) 5000)))
     = Some (DailyLimitExceeded 2 ''main'')
   \<and> transportCalls (snd (sendEmail acceptAll ''s1'' (mailTo ''ann@x.io'')
      (worldOf (providerOf 2 2 (Some 1000)) (draftCampaign [] None) 5000))) = 0
   \<and> sentTodayOf ''s1'' (worldOf (providerOf 2 2 (Some 1000)) (draftCampaign [] None) 5000) = Some 2
   \<and> sentTodayOf ''s1'' (snd (sendEmail acceptAll ''s1'' (mailTo ''ann@x.io'')
      (worldOf (providerOf 2 2 (Some 1000)) (draftCampaign [] None) 5000))) = Some 3"
  by (simp add: sending_defs world_defs mailTo_def sentTodayOf_def)

text \<open>
  C5 on the code. The configuration was last reset on day 0 with \<open>emailsSentToday = 5\<close>
  and \<open>dailyLimit = 2\<close>; the check runs on day 1. The store is reset to 0, but the
  comparison reads the count of the object loaded before the reset: the check denies for
  the daily limit, and \<open>sendEmail\<close> returns that error without handing anything to the
  transport.
\<close>

theorem new_day_first_attempt_denied:
  "toDateString 1000 < toDateString 86405000
   \<and> fst (checkAndUpdateRateLimit (providerOf 2 5 (Some 1000))
       (worldOf (providerOf 2 5 (Some 1000)) (draftCampaign [] None) 86405000))
     = Inl (DailyLimitExceeded 2 ''main'')
   \<and> sentTodayOf ''s1'' (snd (checkAndUpdateRateLimit (providerOf 2 5 (Some 1000))
       (worldOf (providerOf 2 5 (Some 1000)) (draftCampaign [] None) 86405000))) = Some 0
   \<and> sendError (fst (sendEmail acceptAll ''s1'' (mailTo ''ann@x.io'')
       (worldOf (providerOf 2 5 (Some 1000)) (draftCampaign [] None) 86405000)))
     = Some (DailyLimitExceeded 2 ''main'')
   \<and> outbox (snd (sendEmail acceptAll ''s1'' (mailTo ''ann@x.io'')
       (worldOf (providerOf 2 5 (Some 1000)) (draftCampaign [] None) 86405000))) = []"
  by (simp add: sending_defs world_defs mailTo_def sentTodayOf_def)

section \<open>The dispatch pass at concrete campaigns\<close>

lemmas campaign_defs = startCampaign_def processCampaignEmails_def isPending_def orDefault_def
  processOneEmail_def updateOneEmail_def hasEmail_def completionCheck_def markCompleted_def
  trackingIdOf_def nextHour_def quiet_def runTimer_def pauseCampaign_def isRunningCampaign_def

lemmas outcome_defs = campaignOf_def campaignStatusOf_def recipientStatuses_def sentTo_def

text \<open>
  C1, as amended. \<open>dailyLimit = 2\<close>, three pending recipients, every send accepted by
  the transport. \<open>startCampaign\<close> returns without an error; two messages are handed to the
  transport; the third attempt is denied for the daily limit and \<open>sendEmail\<close> returns the
  denial as a failed result, so the third recipient is marked \<open>failed\<close> with that error,
  the pass runs to its end, and the campaign is \<open>completed\<close>.
\<close>

theorem daily_limit_denial_marks_failed:
  "\<not> isl dailyLimitScenario
   \<and> sentTo (projr dailyLimitScenario) = [''ann@x.io'', ''bob@x.io'']
   \<and> recipientStatuses ''c1'' (projr dailyLimitScenario) = [Sent, Sent, Failed]
   \<and> recipientErrors ''c1'' (projr dailyLimitScenario)
       = [None, None, Some (DailyLimitExceeded 2 ''main'')]
   \<and> campaignStatusOf ''c1'' (projr dailyLimitScenario) = Some Completed"
  by (simp add: dailyLimitScenario_def campaign_defs sending_defs world_defs outcome_defs
      recipientErrors_def)

text \<open>
  C1, as stated, fails: after the pass it is not the case that the third recipient is
  \<open>pending\<close> and the campaign \<open>running\<close>.
\<close>

theorem daily_limit_denial_counterexample:
  "\<not> (recipientStatuses ''c1'' (projr dailyLimitScenario) ! 2 = Pending
      \<and> campaignStatusOf ''c1'' (projr dailyLimitScenario) = Some Running)"
  by (simp add: dailyLimitScenario_def campaign_defs sending_defs world_defs outcome_defs)

text \<open>
  C2 on the code. Two pending recipients and \<open>maxEmailsPerHour = 1\<close>. The first pass
  sends to the first recipient, registers the continuation and stops, with the second
  recipient pending. The continuation selects from the campaign object of the first
  pass, in which the first recipient is still pending: it sends to the first recipient a
  second time, and the second recipient is still pending afterwards.
\<close>

theorem continuation_resends_from_stale_campaign:
  "\<not> isl hourlyCapScenario
   \<and> sentTo (projr hourlyCapScenario) = [''ann@x.io'']
   \<and> recipientStatuses ''c1'' (projr hourlyCapScenario) = [Sent, Pending]
   \<and> length (timers (projr hourlyCapScenario)) = 1
   \<and> \<not> isl (thenRunTimer hourlyCapScenario)
   \<and> sentTo (projr (thenRunTimer hourlyCapScenario)) = [''ann@x.io'', ''ann@x.io'']
   \<and> recipientStatuses ''c1'' (projr (thenRunTimer hourlyCapScenario)) = [Sent, Pending]"
  by (simp add: hourlyCapScenario_def thenRunTimer_def campaign_defs sending_defs world_defs
      outcome_defs)

text \<open>
  C4 on the code. One pending recipient whose send the transport refuses. The pass ends
  with no recipient pending and the campaign \<open>completed\<close>, \<open>completedAt\<close> set; \<open>emailsSent\<close> and
  \<open>emailsFailed\<close> are both 1 and \<open>totalEmails\<close> is 1, while no recipient has status
  \<open>sent\<close>.
\<close>

theorem failed_send_counted_twice:
  "\<not> isl failedSendScenario
   \<and> campaignStatusOf ''c1'' (projr failedSendScenario) = Some Completed
   \<and> map_option completedAt (campaignOf ''c1'' (projr failedSendScenario)) = Some (Some 6000)
   \<and> recipientStatuses ''c1'' (projr failedSendScenario) = [Failed]
   \<and> map_option totalEmails (campaignOf ''c1'' (projr failedSendScenario)) = Some 1
   \<and> map_option emailsSent (campaignOf ''c1'' (projr failedSendScenario)) = Some 1
   \<and> map_option emailsFailed (campaignOf ''c1'' (projr failedSendScenario)) = Some 1"
  by (simp add: failedSendScenario_def rejectAll_def campaign_defs sending_defs world_defs
      outcome_defs)

text \<open>
  C3, as stated, fails. Two pending recipients; the campaign is paused while the pass
  waits after the first send. The pass still sends to the second recipient and marks it
  \<open>sent\<close>, and its completion check sets the campaign to \<open>completed\<close>.
\<close>

theorem pause_mid_batch_counterexample:
  "\<not> isl pausedMidBatchScenario
   \<and> sentTo (projr pausedMidBatchScenario) = [''ann@x.io'', ''bob@x.io'']
   \<and> recipientStatuses ''c1'' (projr pausedMidBatchScenario) = [Sent, Sent]
   \<and> campaignStatusOf ''c1'' (projr pausedMidBatchScenario) = Some Completed"
  by (simp add: pausedMidBatchScenario_def pauseDuringFirst_def campaign_defs sending_defs
      world_defs outcome_defs)

section \<open>Pausing during a pass\<close>

lemma updateFirst_commute:
  assumes "\<And>x. P (f x) = P x" and "\<And>x. Q (g x) = Q x" and "\<And>x. f (g x) = g (f x)"
  shows "updateFirst P g (updateFirst Q f xs) = updateFirst Q f (updateFirst P g xs)"
  by (induction xs) (simp_all add: assms)

lemma find_None_updateFirst:
  assumes "\<And>x. Q (g x) = Q x"
  shows "(find Q (updateFirst P g xs) = None) = (find Q xs = None)"
  by (induction xs) (simp_all add: assms)

lemma sendEmail_campaignModel:
  "sendEmail tr i m (w\<lparr>campaignModel := X\<rparr>)
     = (fst (sendEmail tr i m w), (snd (sendEmail tr i m w))\<lparr>campaignModel := X\<rparr>)"
  by (simp add: sendEmail_def sendEmail_catch_def checkAndUpdateRateLimit_def
      updateSMTPStats_def updateDailyStats_def Let_def
      split: option.splits sum.splits transport_outcome.splits)

lemma sendEmail_keeps:
  "campaignModel (snd (sendEmail tr i m w)) = campaignModel w"
  "clock (snd (sendEmail tr i m w)) = clock w"
  "timers (snd (sendEmail tr i m w)) = timers w"
  by (simp_all add: sendEmail_def sendEmail_catch_def checkAndUpdateRateLimit_def
      updateSMTPStats_def updateDailyStats_def Let_def
      split: option.splits sum.splits transport_outcome.splits)

lemma updateOneEmail_pausing:
  assumes "\<And>c. cid (onDoc c) = cid c" and "\<And>c. userId (onDoc c) = userId c"
    and "\<And>c. cstatus (onDoc c) = cstatus c" and "\<And>c. emails (onDoc c) = emails c"
    and "\<And>c. (onDoc c)\<lparr>cstatus := Paused\<rparr> = onDoc (c\<lparr>cstatus := Paused\<rparr>)"
  shows "updateOneEmail c a onDoc onEl
           (updateFirst (isRunningCampaign i u) (\<lambda>d. d\<lparr>cstatus := Paused\<rparr>) coll)
         = updateFirst (isRunningCampaign i u) (\<lambda>d. d\<lparr>cstatus := Paused\<rparr>)
             (updateOneEmail c a onDoc onEl coll)"
proof -
  have swap: "x\<lparr>emails := E, cstatus := Paused\<rparr> = x\<lparr>cstatus := Paused, emails := E\<rparr>"
    for x :: campaign and E
    by (cases x) simp
  show ?thesis
    unfolding updateOneEmail_def
    by (rule updateFirst_commute)
      (simp_all add: assms swap hasEmail_def isRunningCampaign_def)
qed

lemma processOneEmail_pausing:
  "processOneEmail tr c t s d e (pausing i u w) = pausing i u (processOneEmail tr c t s d e w)"
  by (simp add: processOneEmail_def pausing_def Let_def case_prod_beta sendEmail_campaignModel
      sendEmail_keeps updateOneEmail_pausing)

lemma processLoop_pausing:
  "processLoop tr quiet c t s d m n pending (pausing i u w)
     = pausing i u (processLoop tr quiet c t s d m n pending w)"
proof (induction pending arbitrary: n w)
  case Nil
  then show ?case by simp
next
  case (Cons e rest)
  show ?case
  proof (cases "n \<ge> m")
    case True
    then show ?thesis by (simp add: pausing_def)
  next
    case False
    then show ?thesis
      using Cons.IH [of "n + 1" "processOneEmail tr c t s d e w"]
      by (simp add: quiet_def processOneEmail_pausing)
  qed
qed

lemma processOneEmail_keeps_running:
  "(find (isRunningCampaign i u) (campaignModel (processOneEmail tr c t s d e w)) = None)
     = (find (isRunningCampaign i u) (campaignModel w) = None)"
  by (simp add: processOneEmail_def Let_def case_prod_beta sendEmail_keeps updateOneEmail_def
      find_None_updateFirst isRunningCampaign_def)

lemma processLoop_keeps_running:
  "(find (isRunningCampaign i u) (campaignModel (processLoop tr quiet c t s d m n pending w)) = None)
     = (find (isRunningCampaign i u) (campaignModel w) = None)"
proof (induction pending arbitrary: n w)
  case Nil
  then show ?case by simp
next
  case (Cons e rest)
  show ?case
  proof (cases "n \<ge> m")
    case True
    then show ?thesis by simp
  next
    case False
    then show ?thesis
      using Cons.IH [of "n + 1" "processOneEmail tr c t s d e w"]
      by (simp add: quiet_def processOneEmail_keeps_running)
  qed
qed

lemma pauseCampaign_pausing:
  "pauseCampaign i u w = Inr w' \<Longrightarrow> w' = pausing i u w"
  by (auto simp: pauseCampaign_def pausing_def split: option.splits)

text \<open>
  C3, as amended. The loop does not read the stored status of the campaign. When
  \<open>pauseCampaign\<close> succeeds in a state \<open>w\<close> of the pass, running the rest of the loop
  from the paused state gives the state that running it from \<open>w\<close> and pausing afterwards
  gives: the recipients still to come are sent to and marked exactly as without the
  pause, and the pause changes only the stored status of the campaign.
\<close>

theorem pause_does_not_stop_the_pass:
  assumes "pauseCampaign campaignId uid w = Inr w'"
  shows "pauseCampaign campaignId uid
           (processLoop transport quiet campaign template smtpConfig delay maxPerHour n pending w)
         = Inr (processLoop transport quiet campaign template smtpConfig delay maxPerHour n pending w')"
proof -
  have w': "w' = pausing campaignId uid w"
    using assms by (rule pauseCampaign_pausing)
  have "find (isRunningCampaign campaignId uid) (campaignModel w) \<noteq> None"
    using assms by (auto simp: pauseCampaign_def split: option.splits)
  then have "find (isRunningCampaign campaignId uid)
               (campaignModel (processLoop transport quiet campaign template smtpConfig delay
                  maxPerHour n pending w)) \<noteq> None"
    by (simp add: processLoop_keeps_running)
  then have "pauseCampaign campaignId uid
               (processLoop transport quiet campaign template smtpConfig delay maxPerHour n pending w)
             = Inr (pausing campaignId uid
                 (processLoop transport quiet campaign template smtpConfig delay maxPerHour n pending w))"
    by (auto simp: pauseCampaign_def pausing_def split: option.splits)
  then show ?thesis
    by (simp add: w' processLoop_pausing)
qed

text \<open>The theorem for C3 at a pause before the second of two recipients.\<close>

theorem pause_does_not_stop_the_pass_witness:
  "pauseCampaign ''c1'' ''u1'' runningWorld = Inr pausedWorld
   \<and> sentTo (processLoop acceptAll quiet (draftCampaign [''ann@x.io'', ''bob@x.io''] None) None
        (providerOf 0 0 (Some 1000)) 1000 100 1 [pendingRecipient ''bob@x.io''] pausedWorld)
       = [''bob@x.io'']
   \<and> pauseCampaign ''c1'' ''u1''
        (processLoop acceptAll quiet (draftCampaign [''ann@x.io'', ''bob@x.io''] None) None
           (providerOf 0 0 (Some 1000)) 1000 100 1 [pendingRecipient ''bob@x.io''] runningWorld)
       = Inr (processLoop acceptAll quiet (draftCampaign [''ann@x.io'', ''bob@x.io''] None) None
           (providerOf 0 0 (Some 1000)) 1000 100 1 [pendingRecipient ''bob@x.io''] pausedWorld)"
proof -
  have p: "pauseCampaign ''c1'' ''u1'' runningWorld = Inr pausedWorld"
    by (simp add: pauseCampaign_def isRunningCampaign_def runningWorld_def pausedWorld_def
        worldOf_def draftCampaign_def)
  have s: "sentTo (processLoop acceptAll quiet (draftCampaign [''ann@x.io'', ''bob@x.io''] None) None
        (providerOf 0 0 (Some 1000)) 1000 100 1 [pendingRecipient ''bob@x.io''] pausedWorld)
       = [''bob@x.io'']"
    by (simp add: pausedWorld_def campaign_defs sending_defs world_defs outcome_defs)
  note t = pause_does_not_stop_the_pass [OF p, of acceptAll
      "draftCampaign [''ann@x.io'', ''bob@x.io''] None" None "providerOf 0 0 (Some 1000)"
      1000 100 1 "[pendingRecipient ''bob@x.io'']"]
  from p s t show ?thesis
    by (intro conjI)
qed

end
